theory Spec2Isabelle
  imports Main "HOL-Library.Sublist" "HOL-Library.Char_ord" "HOL-Library.List_Lexorder"
begin

section \<open>SmolDesk automated security scanner\<close>

text \<open>
  A shallow embedding of \<^verbatim>\<open>security/pentest/automated_security_scan.py\<close>.
  The scanner object is a record that every probe takes and returns updated; what the
  probes observe of the outside world (the signaling server, the installed programs, the
  file system, the HTTPS endpoint) is a record of functions, the environment; a Python
  exception is a value, and a call that raises returns it together with the scanner as
  it was mutated up to that point.
\<close>

subsection \<open>Exceptions\<close>

text \<open>
  The exception classes that the handlers of the program tell apart, and some of those
  they do not. \<open>AsyncTimeoutError\<close> is \<^verbatim>\<open>asyncio.TimeoutError\<close>,
  \<open>TimeoutExpired\<close> is \<^verbatim>\<open>subprocess.TimeoutExpired\<close>, \<open>RequestException\<close> is
  \<^verbatim>\<open>requests.exceptions.RequestException\<close> with its subclasses, \<open>ConnectionClosed\<close> is
  the one of the websockets library. An exception carries its class and the text that
  \<^verbatim>\<open>str(e)\<close> gives.
\<close>

datatype exn_class =
    KeyboardInterrupt
  | AsyncTimeoutError
  | TimeoutExpired
  | FileNotFoundError
  | PermissionError
  | ConnectionRefusedError
  | ConnectionClosed
  | RequestException
  | NameError
  | TypeError
  | RuntimeError

datatype exn = Exn exn_class string

fun exn_class_of :: "exn \<Rightarrow> exn_class" where
  "exn_class_of (Exn c m) = c"

fun str_exn :: "exn \<Rightarrow> string" where
  "str_exn (Exn c m) = m"

text \<open>\<^verbatim>\<open>except Exception\<close>: every class above but \<open>KeyboardInterrupt\<close> derives from
  \<^verbatim>\<open>Exception\<close>.\<close>

definition is_Exception :: "exn \<Rightarrow> bool" where
  "is_Exception e = (exn_class_of e \<noteq> KeyboardInterrupt)"

subsection \<open>Strings and numbers as Python prints them\<close>

definition digit_char :: "nat \<Rightarrow> char" where
  "digit_char d = char_of (48 + d)"

fun str_nat :: "nat \<Rightarrow> string" where
  "str_nat n = (if n < 10 then [digit_char n] else str_nat (n div 10) @ [digit_char (n mod 10)])"

declare str_nat.simps [simp del]

text \<open>\<^verbatim>\<open>str(n)\<close> of an integer, as an f-string formats it.\<close>

definition str_int :: "int \<Rightarrow> string" where
  "str_int i = (if i < 0 then CHR ''-'' # str_nat (nat (- i)) else str_nat (nat i))"

fun oct_digits :: "nat \<Rightarrow> string" where
  "oct_digits n = (if n < 8 then [digit_char n] else oct_digits (n div 8) @ [digit_char (n mod 8)])"

declare oct_digits.simps [simp del]

text \<open>\<^verbatim>\<open>oct(n)\<close> of a non-negative integer.\<close>

definition oct :: "nat \<Rightarrow> string" where
  "oct n = ''0o'' @ oct_digits n"

text \<open>The slice \<^verbatim>\<open>s[-3:]\<close>: the last three characters, the whole string when it is
  shorter.\<close>

definition last_three :: "string \<Rightarrow> string" where
  "last_three s = drop (length s - 3) s"

text \<open>
  \<^verbatim>\<open>s.lower()\<close>, on characters read as code points below 256: the ASCII capitals and
  the capitals of Latin-1 move up by 32, every other character stays.
\<close>

definition lower_char :: "char \<Rightarrow> char" where
  "lower_char c =
     (let n = (of_char c :: nat)
      in if (65 \<le> n \<and> n \<le> 90) \<or> (192 \<le> n \<and> n \<le> 222 \<and> n \<noteq> 215)
         then char_of (n + 32) else c)"

definition lower :: "string \<Rightarrow> string" where
  "lower s = map lower_char s"

text \<open>The substring test \<^verbatim>\<open>sub in s\<close>.\<close>

fun py_in :: "string \<Rightarrow> string \<Rightarrow> bool" where
  "py_in sub [] = (sub = [])"
| "py_in sub (c # cs) = (prefix sub (c # cs) \<or> py_in sub cs)"

text \<open>\<^verbatim>\<open>s.split('\n')[0]\<close>: the text before the first newline.\<close>

definition first_line :: "string \<Rightarrow> string" where
  "first_line s = takeWhile (\<lambda>c. c \<noteq> CHR 0x0A) s"

subsection \<open>The scanner and its results\<close>

text \<open>
  \<^verbatim>\<open>self.results\<close> has four lists. The entries of \<open>vulnerabilities\<close> are dictionaries
  from strings to strings, written here as the list of their items in the order of the
  dictionary display; the entries of the other three are plain strings.
\<close>

type_synonym finding = "(string \<times> string) list"

record results =
  vulnerabilities :: "finding list"
  warnings :: "string list"
  info :: "string list"
  passed :: "string list"

record scanner =
  target_host :: string
  target_port :: int
  results :: results

definition init :: "string \<Rightarrow> int \<Rightarrow> scanner" where
  "init h p = \<lparr>target_host = h, target_port = p,
     results = \<lparr>vulnerabilities = [], warnings = [], info = [], passed = []\<rparr>\<rparr>"

text \<open>The four forms of \<^verbatim>\<open>self.results[...].append(x)\<close>.\<close>

definition append_vulnerability :: "finding \<Rightarrow> scanner \<Rightarrow> scanner" where
  "append_vulnerability f s =
     s\<lparr>results := (results s)\<lparr>vulnerabilities := vulnerabilities (results s) @ [f]\<rparr>\<rparr>"

definition append_warning :: "string \<Rightarrow> scanner \<Rightarrow> scanner" where
  "append_warning x s = s\<lparr>results := (results s)\<lparr>warnings := warnings (results s) @ [x]\<rparr>\<rparr>"

definition append_info :: "string \<Rightarrow> scanner \<Rightarrow> scanner" where
  "append_info x s = s\<lparr>results := (results s)\<lparr>info := info (results s) @ [x]\<rparr>\<rparr>"

definition append_passed :: "string \<Rightarrow> scanner \<Rightarrow> scanner" where
  "append_passed x s = s\<lparr>results := (results s)\<lparr>passed := passed (results s) @ [x]\<rparr>\<rparr>"

subsection \<open>The environment\<close>

text \<open>
  A frame received from the web socket is text or binary. The environment answers each
  call the probes make to the outside: \<open>None\<close> or \<open>Inr\<close> when the call returns,
  \<open>Some e\<close> or \<open>Inl e\<close> when it raises \<open>e\<close>. The exchanges over the web socket are
  numbered from 0 in the order of the payloads.
\<close>

datatype frame = Text string | Binary string

record env =
  ws_connect :: "string \<Rightarrow> exn option"
  ws_send :: "nat \<Rightarrow> string \<Rightarrow> exn option"
  ws_recv :: "nat \<Rightarrow> exn + frame"
  subprocess_run :: "string list \<Rightarrow> exn + (int \<times> string)"
  expanduser :: "string \<Rightarrow> exn + string"
  path_exists :: "string \<Rightarrow> exn + bool"
  path_stat :: "string \<Rightarrow> exn + nat"
  requests_get :: "string \<Rightarrow> exn + int"
  tls_handshake :: "string \<Rightarrow> int \<Rightarrow> exn + string"
  open_write :: "string \<Rightarrow> exn option"

text \<open>
  How a method call ends: it returns a value, or it raises; in both cases the scanner is
  the one that the call has mutated so far.
\<close>

datatype 'a completion = Returned 'a scanner | Raised exn scanner

text \<open>A \<^verbatim>\<open>for\<close> loop whose body may raise: the first exception leaves the loop.\<close>

fun for_each :: "('a \<Rightarrow> scanner \<Rightarrow> unit completion) \<Rightarrow> 'a list \<Rightarrow> scanner \<Rightarrow> unit completion" where
  "for_each body [] s = Returned () s"
| "for_each body (x # xs) s =
     (case body x s of
        Raised e s' \<Rightarrow> Raised e s'
      | Returned u s' \<Rightarrow> for_each body xs s')"

text \<open>One statement after another.\<close>

definition and_then :: "unit completion \<Rightarrow> (scanner \<Rightarrow> 'a completion) \<Rightarrow> 'a completion" where
  "and_then c k = (case c of Raised e s \<Rightarrow> Raised e s | Returned u s \<Rightarrow> k s)"

subsection \<open>The signaling server probe\<close>

definition malicious_payloads :: "string list" where
  \<open>malicious_payloads =
     [''{"type": "create-room", "roomId": "../../../etc/passwd"}'',
      ''{"type": "join-room", "roomId": "<script>alert(1)</script>"}'',
      ''{"type": "'' @ replicate 10000 CHR ''A'' @ ''"}'',
      ''{"type": null}'',
      ''not-json-data'']\<close>

text \<open>The body of the loop over the payloads: send, wait for an answer, look at it.
  Testing a binary frame for the text \<^verbatim>\<open>"error"\<close> raises a \<^verbatim>\<open>TypeError\<close>.\<close>

definition send_payload :: "env \<Rightarrow> nat \<times> string \<Rightarrow> scanner \<Rightarrow> unit completion" where
  "send_payload w ip s =
     (case ip of (i, payload) \<Rightarrow>
       (case ws_send w i payload of
          Some e \<Rightarrow> Raised e s
        | None \<Rightarrow>
           (case ws_recv w i of
              Inl e \<Rightarrow>
                if exn_class_of e = AsyncTimeoutError then Returned () s else Raised e s
            | Inr (Binary b) \<Rightarrow>
                Raised (Exn TypeError (''a bytes-like object is required, not 'str'' @ [CHR 0x27])) s
            | Inr (Text response) \<Rightarrow>
                if \<not> py_in ''error'' (lower response)
                then Returned () (append_vulnerability
                       [(''type'', ''Input Validation''),
                        (''payload'', take 100 payload),
                        (''description'', ''Server accepts malicious input without proper validation'')] s)
                else Returned () s)))"

definition scan_signaling_server :: "env \<Rightarrow> scanner \<Rightarrow> unit completion" where
  "scan_signaling_server w s =
     (let uri = ''ws://'' @ target_host s @ '':'' @ str_int (target_port s)
      in case (case ws_connect w uri of
                 Some e \<Rightarrow> Raised e s
               | None \<Rightarrow>
                   and_then (for_each (send_payload w) (enumerate 0 malicious_payloads) s)
                     (\<lambda>s'. Returned ()
                        (append_passed ''WebSocket connection established successfully'' s')))
         of Raised e s' \<Rightarrow>
              if is_Exception e
              then Returned ()
                     (append_warning (''Could not connect to signaling server: '' @ str_exn e) s')
              else Raised e s'
          | Returned u s' \<Rightarrow> Returned u s')"

subsection \<open>The system dependencies probe\<close>

definition dependencies :: "(string \<times> string) list" where
  "dependencies =
     [(''ffmpeg'', ''CVE database check needed''),
      (''xdotool'', ''Input injection vector''),
      (''ydotool'', ''Privilege escalation potential''),
      (''wl-clipboard'', ''Clipboard data leakage''),
      (''xclip'', ''X11 security context'')]"

definition check_dependency :: "env \<Rightarrow> string \<times> string \<Rightarrow> scanner \<Rightarrow> unit completion" where
  "check_dependency w dr s =
     (case dr of (dep, risk) \<Rightarrow>
       (case subprocess_run w [dep, ''--version''] of
          Inl e \<Rightarrow>
            if exn_class_of e = TimeoutExpired \<or> exn_class_of e = FileNotFoundError
            then Returned () (append_info (dep @ '': Not available'') s)
            else Raised e s
        | Inr (returncode, stdout) \<Rightarrow>
            if returncode = 0
            then Returned ()
                   (append_info (dep @ '': '' @ first_line stdout @ '' - Risk: '' @ risk) s)
            else Returned () (append_info (dep @ '': Not found'') s)))"

definition scan_system_dependencies :: "env \<Rightarrow> scanner \<Rightarrow> unit completion" where
  "scan_system_dependencies w s = for_each (check_dependency w) dependencies s"

subsection \<open>The file permissions probe\<close>

definition critical_files :: "string list" where
  "critical_files =
     [''/opt/smoldesk/smoldesk'',
      ''/usr/bin/smoldesk'',
      ''/etc/smoldesk/'',
      ''~/.local/share/smoldesk/'']"

text \<open>The body of the loop over the paths. \<open>expanduser\<close> gives the text of
  \<^verbatim>\<open>Path(file_path).expanduser()\<close>; no call of the body is inside a \<^verbatim>\<open>try\<close>.\<close>

definition check_file :: "env \<Rightarrow> string \<Rightarrow> scanner \<Rightarrow> unit completion" where
  "check_file w file_path s =
     (case expanduser w file_path of
        Inl e \<Rightarrow> Raised e s
      | Inr expanded_path \<Rightarrow>
         (case path_exists w expanded_path of
            Inl e \<Rightarrow> Raised e s
          | Inr ex \<Rightarrow>
             if ex then
               (case path_stat w expanded_path of
                  Inl e \<Rightarrow> Raised e s
                | Inr st_mode \<Rightarrow>
                   (let mode = last_three (oct st_mode)
                    in if mode \<in> set [''777'', ''776'', ''666'']
                       then Returned () (append_vulnerability
                              [(''type'', ''File Permissions''),
                               (''file'', expanded_path),
                               (''permissions'', mode),
                               (''description'', ''File has overly permissive permissions'')] s)
                       else if mode \<in> set [''755'', ''644'']
                       then Returned ()
                              (append_passed
                                 (expanded_path @ '': Safe permissions ('' @ mode @ '')'') s)
                       else Returned ()
                              (append_warning
                                 (expanded_path @ '': Unusual permissions ('' @ mode @ '')'') s)))
             else Returned () s))"

definition scan_file_permissions :: "env \<Rightarrow> scanner \<Rightarrow> unit completion" where
  "scan_file_permissions w s = for_each (check_file w) critical_files s"

subsection \<open>The network security probe\<close>

text \<open>
  The module imports asyncio, json, ssl, websockets, requests, subprocess, sys, Path and
  argparse. The name \<^verbatim>\<open>socket\<close> is bound nowhere, so evaluating \<^verbatim>\<open>socket.socket()\<close>
  raises a \<^verbatim>\<open>NameError\<close>.
\<close>

definition socket_socket :: "exn + unit" where
  "socket_socket = Inl (Exn NameError ''name 'socket' is not defined'')"

text \<open>
  The \<^verbatim>\<open>with context.wrap_socket(socket.socket(), ...)\<close> statement and its block. The
  argument \<^verbatim>\<open>socket.socket()\<close> is evaluated before anything is wrapped or connected.
  Creating the SSL context just before touches nothing outside and is taken to return.
\<close>

definition tls_block :: "env \<Rightarrow> scanner \<Rightarrow> unit completion" where
  "tls_block w s =
     (case socket_socket of
        Inl e \<Rightarrow> Raised e s
      | Inr sock \<Rightarrow>
         (case tls_handshake w (target_host s) (target_port s) of
            Inl e \<Rightarrow> Raised e s
          | Inr protocol \<Rightarrow>
             if protocol < ''TLSv1.2''
             then Returned () (append_vulnerability
                    [(''type'', ''TLS Configuration''),
                     (''protocol'', protocol),
                     (''description'', ''Weak TLS version in use'')] s)
             else Returned () (append_passed (''TLS version: '' @ protocol) s)))"

definition scan_network_security :: "env \<Rightarrow> scanner \<Rightarrow> unit completion" where
  "scan_network_security w s =
     (let https_url = ''https://'' @ target_host s @ '':'' @ str_int (target_port s)
      in case (case requests_get w https_url of
                 Inl e \<Rightarrow> Raised e s
               | Inr status_code \<Rightarrow>
                   tls_block w
                     (if status_code = 200
                      then append_warning
                             ''HTTPS endpoint responds but certificate not verified'' s
                      else s))
         of Raised e s' \<Rightarrow>
              if exn_class_of e = RequestException
              then Returned () (append_info ''No HTTPS endpoint found'' s')
              else if is_Exception e
              then Returned () (append_info (''TLS scan failed: '' @ str_exn e) s')
              else Raised e s'
          | Returned u s' \<Rightarrow> Returned u s')"

subsection \<open>The authentication probe\<close>

definition weak_passwords :: "string list" where
  "weak_passwords =
     [''password'', ''123456'', ''admin'', ''smoldesk'',
      ''password123'', ''qwerty'', '''', ''test'']"

definition scan_authentication_security :: "env \<Rightarrow> scanner \<Rightarrow> unit completion" where
  "scan_authentication_security w s =
     Returned () (append_info ''Authentication testing requires running instance'' s)"

subsection \<open>The report\<close>

text \<open>
  \<^verbatim>\<open>generate_report\<close> prints and changes nothing. Of what it prints, the model keeps the
  risk score and the risk line chosen by the \<^verbatim>\<open>if\<close> chain after it. Its lookups of
  \<^verbatim>\<open>vuln['type']\<close> and \<^verbatim>\<open>vuln['description']\<close> find their keys in every dictionary
  that a probe appends, so it does not raise.
\<close>

datatype tier = LOW_RISK | MEDIUM_RISK | HIGH_RISK

definition risk_score :: "results \<Rightarrow> nat" where
  "risk_score r = length (vulnerabilities r) * 10 + length (warnings r) * 3"

definition risk_tier :: "nat \<Rightarrow> tier" where
  "risk_tier score =
     (if score = 0 then LOW_RISK else if score < 20 then MEDIUM_RISK else HIGH_RISK)"

record report =
  score :: nat
  tier :: tier

definition generate_report :: "scanner \<Rightarrow> report" where
  "generate_report s =
     (let risk = risk_score (results s) in \<lparr>score = risk, tier = risk_tier risk\<rparr>)"

subsection \<open>The scan\<close>

definition run_scan :: "env \<Rightarrow> scanner \<Rightarrow> report completion" where
  "run_scan w s =
     and_then (scan_signaling_server w s) (\<lambda>s1.
     and_then (scan_system_dependencies w s1) (\<lambda>s2.
     and_then (scan_file_permissions w s2) (\<lambda>s3.
     and_then (scan_network_security w s3) (\<lambda>s4.
     and_then (scan_authentication_security w s4) (\<lambda>s5.
     Returned (generate_report s5) s5)))))"

subsection \<open>The command\<close>

text \<open>
  The arguments as argparse hands them over: \<^verbatim>\<open>--port\<close> has \<^verbatim>\<open>type=int\<close> and no
  other condition, \<^verbatim>\<open>--output\<close> (here \<open>output_path\<close>) is \<open>None\<close> when absent.
  What \<^verbatim>\<open>json.dump\<close> receives is the results dictionary: an object of four arrays.
\<close>

record args =
  host :: string
  port :: int
  output_path :: "string option"

datatype json = JString string | JArray "json list" | JObject "(string \<times> json) list"

definition finding_json :: "finding \<Rightarrow> json" where
  "finding_json f = JObject (map (\<lambda>(k, v). (k, JString v)) f)"

definition results_json :: "results \<Rightarrow> json" where
  "results_json r =
     JObject
       [(''vulnerabilities'', JArray (map finding_json (vulnerabilities r))),
        (''warnings'', JArray (map JString (warnings r))),
        (''info'', JArray (map JString (info r))),
        (''passed'', JArray (map JString (passed r)))]"

text \<open>
  What a run of the command leaves behind: the exit status, the lines that \<open>main\<close>
  itself prints, the file written (its path and content), the scanner at the end, and
  the report when \<^verbatim>\<open>generate_report\<close> was reached.
\<close>

record process =
  exit_status :: nat
  messages :: "string list"
  artifact :: "(string \<times> json) option"
  final :: scanner
  reported :: "report option"

text \<open>The two \<^verbatim>\<open>except\<close> clauses of \<open>main\<close>; both end in \<^verbatim>\<open>sys.exit(1)\<close>.\<close>

definition on_exception :: "exn \<Rightarrow> scanner \<Rightarrow> report option \<Rightarrow> process" where
  "on_exception e s rep =
     (if exn_class_of e = KeyboardInterrupt
      then \<lparr>exit_status = 1, messages = [''\<newline>Scan interrupted by user''],
             artifact = None, final = s, reported = rep\<rparr>
      else \<lparr>exit_status = 1, messages = [''\<newline>Scan failed: '' @ str_exn e],
             artifact = None, final = s, reported = rep\<rparr>)"

definition main :: "args \<Rightarrow> env \<Rightarrow> process" where
  "main a w =
     (case run_scan w (init (host a) (port a)) of
        Raised e s \<Rightarrow> on_exception e s None
      | Returned rep s \<Rightarrow>
         (case output_path a of
            None \<Rightarrow> \<lparr>exit_status = 0, messages = [], artifact = None,
                      final = s, reported = Some rep\<rparr>
          | Some path \<Rightarrow>
             if path = [] then \<lparr>exit_status = 0, messages = [], artifact = None,
                                final = s, reported = Some rep\<rparr>
             else
              (case open_write w path of
                 Some e \<Rightarrow> on_exception e s (Some rep)
               | None \<Rightarrow> \<lparr>exit_status = 0,
                           messages = [''\<newline>Results saved to '' @ path],
                           artifact = Some (path, results_json (results s)),
                           final = s, reported = Some rep\<rparr>)))"

subsection \<open>Sample environments\<close>

text \<open>
  A host where nothing listens and nothing is installed; the same host with the program
  installed under three different modes; a signaling server that accepts the connection,
  answers the first two payloads and stays silent afterwards.
\<close>

definition unreachable_env :: env where
  "unreachable_env =
     \<lparr>ws_connect = (\<lambda>uri. Some (Exn ConnectionRefusedError ''[Errno 111] Connection refused'')),
      ws_send = (\<lambda>i payload. None),
      ws_recv = (\<lambda>i. Inl (Exn AsyncTimeoutError '''')),
      subprocess_run = (\<lambda>argv. Inl (Exn FileNotFoundError ''[Errno 2] No such file or directory'')),
      expanduser = (\<lambda>p. Inr (if p = ''~/.local/share/smoldesk/'' then ''/home/user/.local/share/smoldesk''
                              else if p = ''/etc/smoldesk/'' then ''/etc/smoldesk'' else p)),
      path_exists = (\<lambda>p. Inr False),
      path_stat = (\<lambda>p. Inl (Exn FileNotFoundError ''[Errno 2] No such file or directory'')),
      requests_get = (\<lambda>url. Inl (Exn RequestException ''Connection refused'')),
      tls_handshake = (\<lambda>h p. Inl (Exn ConnectionRefusedError ''[Errno 111] Connection refused'')),
      open_write = (\<lambda>path. None)\<rparr>"


definition echo_env :: env where
  "echo_env =
     unreachable_env
       \<lparr>ws_connect := (\<lambda>uri. None),
        ws_recv := (\<lambda>i. if i = 0 then Inr (Text ''welcome'')
                         else if i = 1 then Inr (Text ''Error: invalid room'')
                         else Inl (Exn AsyncTimeoutError ''''))\<rparr>"


definition denied_env :: env where
  "denied_env =
     unreachable_env
       \<lparr>path_exists := (\<lambda>p. if p = ''/home/user/.local/share/smoldesk''
                               then Inl (Exn PermissionError ''[Errno 13] Permission denied'')
                               else Inr False)\<rparr>"

definition dropping_env :: env where
  "dropping_env =
     unreachable_env
       \<lparr>ws_connect := (\<lambda>uri. None),
        ws_recv := (\<lambda>i. if i = 0 then Inr (Text ''welcome'')
                         else Inl (Exn ConnectionClosed ''no close frame received or sent''))\<rparr>"




subsection \<open>Reading the results and the document\<close>

text \<open>The scanner that a call leaves behind, however it ends.\<close>

definition scanner_of :: "'a completion \<Rightarrow> scanner" where
  "scanner_of c = (case c of Returned x s \<Rightarrow> s | Raised e s \<Rightarrow> s)"

text \<open>
  The keys of the two kinds of dictionary that the probes can append to the
  vulnerabilities: the one of the signaling probe and the one of the file permissions
  probe.
\<close>

definition finding_shape :: "finding \<Rightarrow> bool" where
  "finding_shape f =
     (map fst f = [''type'', ''payload'', ''description'']
      \<or> map fst f = [''type'', ''file'', ''permissions'', ''description''])"

text \<open>
  The invariant of a scan: the target is the one given, and every vulnerability has one
  of the two shapes.
\<close>

definition scan_inv :: "string \<Rightarrow> int \<Rightarrow> scanner \<Rightarrow> bool" where
  "scan_inv h p s =
     (target_host s = h \<and> target_port s = p
      \<and> list_all finding_shape (vulnerabilities (results s)))"








subsection \<open>What the probes are expected to record\<close>











section \<open>Auxiliary facts\<close>

subsection \<open>Substrings and octal digits\<close>

lemma py_in_sublist: "py_in sub s = sublist sub s"
  by (induction s) (auto simp: sublist_Cons_right)

lemma oct_digits_last: "\<exists>pre. oct_digits n = pre @ [digit_char (n mod 8)]"
  by (subst oct_digits.simps) auto

lemma oct_digits_small: "n < 8 \<Longrightarrow> oct_digits n = [digit_char n]"
  by (subst oct_digits.simps) simp

lemma oct_digits_step: "8 \<le> n \<Longrightarrow> oct_digits n = oct_digits (n div 8) @ [digit_char (n mod 8)]"
  by (subst oct_digits.simps) simp

lemma last_three_oct_large:
  assumes "64 \<le> n"
  shows "last_three (oct n) =
    [digit_char (n div 64 mod 8), digit_char (n div 8 mod 8), digit_char (n mod 8)]"
proof -
  have a: "oct_digits n = oct_digits (n div 8) @ [digit_char (n mod 8)]"
    using assms by (simp add: oct_digits_step)
  have "8 \<le> n div 8" using assms by simp
  then have b: "oct_digits (n div 8) = oct_digits (n div 8 div 8) @ [digit_char (n div 8 mod 8)]"
    by (rule oct_digits_step)
  have d: "n div 8 div 8 = n div 64" by (simp add: div_mult2_eq)
  obtain pre where c: "oct_digits (n div 64) = pre @ [digit_char (n div 64 mod 8)]"
    using oct_digits_last by blast
  show ?thesis
    unfolding oct_def last_three_def a b d c by simp
qed

lemma last_three_oct_small:
  assumes "n < 64"
  shows "CHR ''o'' \<in> set (last_three (oct n))"
proof (cases "n < 8")
  case True
  then show ?thesis by (simp add: oct_def last_three_def oct_digits_small)
next
  case False
  then have "oct_digits n = oct_digits (n div 8) @ [digit_char (n mod 8)]"
    by (simp add: oct_digits_step)
  moreover have "oct_digits (n div 8) = [digit_char (n div 8)]"
    using assms by (simp add: oct_digits_small)
  ultimately show ?thesis by (simp add: oct_def last_three_def)
qed

lemma of_char_digit_char: "d < 8 \<Longrightarrow> (of_char (digit_char d) :: nat) = 48 + d"
  by (simp add: digit_char_def)

lemma digit_char_eq: "d < 8 \<Longrightarrow> e < 8 \<Longrightarrow> (digit_char d = digit_char e) = (d = e)"
  by (metis of_char_digit_char add_left_cancel)

lemma digit_char_7: "digit_char 7 = CHR ''7''" "digit_char 6 = CHR ''6''" "digit_char 5 = CHR ''5''" "digit_char 4 = CHR ''4''"
  by code_simp+

lemma digit_char_not_o: "d < 8 \<Longrightarrow> digit_char d \<noteq> CHR ''o''"
  using of_char_digit_char [of d] by auto

lemma digits_unique:
  fixes a b c x y z :: nat
  assumes "a < 8" "b < 8" "c < 8" "x < 8" "y < 8" "z < 8"
  shows "(a = x \<and> b = y \<and> c = z) = (64 * a + 8 * b + c = 64 * x + 8 * y + z)"
proof
  assume "a = x \<and> b = y \<and> c = z"
  then show "64 * a + 8 * b + c = 64 * x + 8 * y + z" by simp
next
  assume eq: "64 * a + 8 * b + c = 64 * x + 8 * y + z"
  have l: "64 * a + 8 * b + c = 8 * (8 * a + b) + c" by simp
  have r: "64 * x + 8 * y + z = 8 * (8 * x + y) + z" by simp
  have "(64 * a + 8 * b + c) mod 8 = c mod 8"
    unfolding l by (rule mod_mult_self4)
  moreover have "(64 * x + 8 * y + z) mod 8 = z mod 8"
    unfolding r by (rule mod_mult_self4)
  ultimately have "c mod 8 = z mod 8" using eq by metis
  then have cz: "c = z" using assms by simp
  have e3: "8 * a + b = 8 * x + y" using eq cz by linarith
  have "(8 * a + b) mod 8 = b mod 8" by (rule mod_mult_self4)
  moreover have "(8 * x + y) mod 8 = y mod 8" by (rule mod_mult_self4)
  ultimately have "b mod 8 = y mod 8" using e3 by metis
  then have bxy: "b = y" using assms by simp
  have "a = x" using e3 bxy by simp
  then show "a = x \<and> b = y \<and> c = z" using bxy cz by simp
qed

lemma three_digits_mod:
  fixes n x y z :: nat
  assumes "x < 8" "y < 8" "z < 8"
  shows "(n div 64 mod 8 = x \<and> n div 8 mod 8 = y \<and> n mod 8 = z) = (n mod 512 = 64 * x + 8 * y + z)"
proof -
  define a b c where "a = n div 64 mod 8" and "b = n div 8 mod 8" and "c = n mod 8"
  have bounds: "a < 8" "b < 8" "c < 8"
    by (simp_all add: a_def b_def c_def)
  have m1: "n mod 64 = 8 * b + c"
    using mod_mult2_eq [of n 8 8] by (simp add: b_def c_def)
  have m2: "n mod 512 = 64 * a + n mod 64"
    using mod_mult2_eq [of n 64 8] by (simp add: a_def)
  have m3: "n mod 512 = 64 * a + 8 * b + c"
    unfolding m2 m1 by simp
  have "(a = x \<and> b = y \<and> c = z) = (64 * a + 8 * b + c = 64 * x + 8 * y + z)"
    using bounds assms by (rule digits_unique)
  then show ?thesis
    unfolding m3 a_def b_def c_def .
qed

lemma last_three_oct_eq:
  assumes "1 \<le> x" "x < 8" "y < 8" "z < 8"
  shows "(last_three (oct n) = [digit_char x, digit_char y, digit_char z]) =
         (n mod 512 = 64 * x + 8 * y + z)"
proof (cases "64 \<le> n")
  case True
  have "(last_three (oct n) = [digit_char x, digit_char y, digit_char z]) =
        (n div 64 mod 8 = x \<and> n div 8 mod 8 = y \<and> n mod 8 = z)"
    using assms by (simp add: last_three_oct_large [OF True] digit_char_eq)
  then show ?thesis using assms by (simp add: three_digits_mod)
next
  case False
  then have small: "n < 64" by simp
  have "CHR ''o'' \<notin> set [digit_char x, digit_char y, digit_char z]"
    using assms digit_char_not_o [of x] digit_char_not_o [of y] digit_char_not_o [of z]
    by auto
  then have "last_three (oct n) \<noteq> [digit_char x, digit_char y, digit_char z]"
    using last_three_oct_small [OF small] by metis
  moreover have "n mod 512 \<noteq> 64 * x + 8 * y + z"
    using small assms by simp
  ultimately show ?thesis by simp
qed

lemma mode_777: "(last_three (oct n) = ''777'') = (n mod 512 = 511)"
  using last_three_oct_eq [of 7 7 7 n] by (simp add: digit_char_7)

lemma mode_776: "(last_three (oct n) = ''776'') = (n mod 512 = 510)"
  using last_three_oct_eq [of 7 7 6 n] by (simp add: digit_char_7)

lemma mode_666: "(last_three (oct n) = ''666'') = (n mod 512 = 438)"
  using last_three_oct_eq [of 6 6 6 n] by (simp add: digit_char_7)

lemma mode_755: "(last_three (oct n) = ''755'') = (n mod 512 = 493)"
  using last_three_oct_eq [of 7 5 5 n] by (simp add: digit_char_7)

lemma mode_644: "(last_three (oct n) = ''644'') = (n mod 512 = 420)"
  using last_three_oct_eq [of 6 4 4 n] by (simp add: digit_char_7)

lemmas mode_simps = mode_777 mode_776 mode_666 mode_755 mode_644

subsection \<open>Appending to one list leaves the others alone\<close>

lemma results_append [simp]:
  "vulnerabilities (results (append_vulnerability f s)) = vulnerabilities (results s) @ [f]"
  "warnings (results (append_vulnerability f s)) = warnings (results s)"
  "info (results (append_vulnerability f s)) = info (results s)"
  "passed (results (append_vulnerability f s)) = passed (results s)"
  "vulnerabilities (results (append_warning x s)) = vulnerabilities (results s)"
  "warnings (results (append_warning x s)) = warnings (results s) @ [x]"
  "info (results (append_warning x s)) = info (results s)"
  "passed (results (append_warning x s)) = passed (results s)"
  "vulnerabilities (results (append_info x s)) = vulnerabilities (results s)"
  "warnings (results (append_info x s)) = warnings (results s)"
  "info (results (append_info x s)) = info (results s) @ [x]"
  "passed (results (append_info x s)) = passed (results s)"
  "vulnerabilities (results (append_passed x s)) = vulnerabilities (results s)"
  "warnings (results (append_passed x s)) = warnings (results s)"
  "info (results (append_passed x s)) = info (results s)"
  "passed (results (append_passed x s)) = passed (results s) @ [x]"
  by (simp_all add: append_vulnerability_def append_warning_def append_info_def append_passed_def)

lemma target_append [simp]:
  "target_host (append_vulnerability f s) = target_host s"
  "target_port (append_vulnerability f s) = target_port s"
  "target_host (append_warning x s) = target_host s"
  "target_port (append_warning x s) = target_port s"
  "target_host (append_info x s) = target_host s"
  "target_port (append_info x s) = target_port s"
  "target_host (append_passed x s) = target_host s"
  "target_port (append_passed x s) = target_port s"
  by (simp_all add: append_vulnerability_def append_warning_def append_info_def append_passed_def)

subsection \<open>Evaluating the sample environments\<close>

lemma echo_env_simps:
  "ws_send echo_env i p = None"
  "ws_recv echo_env 0 = Inr (Text ''welcome'')"
  "ws_recv echo_env 1 = Inr (Text ''Error: invalid room'')"
  "ws_recv echo_env (Suc 0) = Inr (Text ''Error: invalid room'')"
  "ws_recv echo_env 2 = Inl (Exn AsyncTimeoutError '''')"
  by (simp_all add: echo_env_def unreachable_env_def)

lemma lower_samples:
  "lower ''welcome'' = ''welcome''"
  "lower ''Error: invalid room'' = ''error: invalid room''"
  by code_simp+

lemma sublist_samples:
  "\<not> sublist ''error'' ''welcome''"
  "sublist ''error'' ''error: invalid room''"
  unfolding py_in_sublist [symmetric] by code_simp+




subsection \<open>Sequencing, loops and what every probe preserves\<close>

lemma and_then_Returned [simp]: "and_then (Returned u s) k = k s"
  by (simp add: and_then_def)

lemma and_then_Raised [simp]: "and_then (Raised e s) k = Raised e s"
  by (simp add: and_then_def)

lemma scanner_of_simps [simp]:
  "scanner_of (Returned x s) = s"
  "scanner_of (Raised e s) = s"
  by (simp_all add: scanner_of_def)

lemma for_each_preserves:
  assumes "\<And>x s. P s \<Longrightarrow> P (scanner_of (body x s))" and "P s"
  shows "P (scanner_of (for_each body xs s))"
  using assms(2)
proof (induction xs arbitrary: s)
  case Nil
  then show ?case by simp
next
  case (Cons x xs)
  from assms(1) [OF Cons.prems, of x] Cons.IH show ?case
    by (cases "body x s") simp_all
qed

lemma scan_inv_init: "scan_inv h p (init h p)"
  by (simp add: scan_inv_def init_def)

lemma scan_inv_append:
  "scan_inv h p s \<Longrightarrow> finding_shape f \<Longrightarrow> scan_inv h p (append_vulnerability f s)"
  "scan_inv h p s \<Longrightarrow> scan_inv h p (append_warning x s)"
  "scan_inv h p s \<Longrightarrow> scan_inv h p (append_info x s)"
  "scan_inv h p s \<Longrightarrow> scan_inv h p (append_passed x s)"
  by (simp_all add: scan_inv_def)

lemma send_payload_inv:
  "scan_inv h p s \<Longrightarrow> scan_inv h p (scanner_of (send_payload w ip s))"
  by (cases ip)
     (auto simp: send_payload_def scan_inv_append finding_shape_def
           split: option.splits sum.splits frame.splits)

lemma scan_signaling_server_inv:
  assumes "scan_inv h p s"
  shows "scan_inv h p (scanner_of (scan_signaling_server w s))"
proof -
  let ?loop = "for_each (send_payload w) (enumerate 0 malicious_payloads) s"
  have loop: "scan_inv h p (scanner_of ?loop)"
    using send_payload_inv assms by (rule for_each_preserves)
  show ?thesis
  proof (cases "ws_connect w (''ws://'' @ target_host s @ '':'' @ str_int (target_port s))")
    case (Some e)
    then show ?thesis
      using assms by (simp add: scan_signaling_server_def scan_inv_append)
  next
    case None
    show ?thesis
    proof (cases ?loop)
      case (Returned u s')
      then show ?thesis
        using loop None by (simp add: scan_signaling_server_def scan_inv_append)
    next
      case (Raised e s')
      then show ?thesis
        using loop None by (simp add: scan_signaling_server_def scan_inv_append)
    qed
  qed
qed

lemma check_dependency_inv:
  "scan_inv h p s \<Longrightarrow> scan_inv h p (scanner_of (check_dependency w dr s))"
  by (cases dr) (auto simp: check_dependency_def scan_inv_append split: sum.splits)

lemma scan_system_dependencies_inv:
  "scan_inv h p s \<Longrightarrow> scan_inv h p (scanner_of (scan_system_dependencies w s))"
  unfolding scan_system_dependencies_def
  using check_dependency_inv by (rule for_each_preserves)

lemma check_file_inv:
  "scan_inv h p s \<Longrightarrow> scan_inv h p (scanner_of (check_file w file_path s))"
  by (auto simp: check_file_def Let_def scan_inv_append finding_shape_def split: sum.splits)

lemma scan_file_permissions_inv:
  "scan_inv h p s \<Longrightarrow> scan_inv h p (scanner_of (scan_file_permissions w s))"
  unfolding scan_file_permissions_def
  using check_file_inv by (rule for_each_preserves)

lemma tls_block_raises:
  "tls_block w s = Raised (Exn NameError (''name 'socket' is not defined'')) s"
  by (simp add: tls_block_def socket_socket_def)

lemma scan_network_security_inv:
  "scan_inv h p s \<Longrightarrow> scan_inv h p (scanner_of (scan_network_security w s))"
  by (auto simp: scan_network_security_def tls_block_raises Let_def scan_inv_append
           split: sum.splits)

lemma scan_authentication_security_inv:
  "scan_inv h p s \<Longrightarrow> scan_inv h p (scanner_of (scan_authentication_security w s))"
  by (simp add: scan_authentication_security_def scan_inv_append)

lemma scan_inv_and_then:
  assumes "scan_inv h p (scanner_of c)"
    and "\<And>s. scan_inv h p s \<Longrightarrow> scan_inv h p (scanner_of (k s))"
  shows "scan_inv h p (scanner_of (and_then c k))"
  using assms by (cases c) simp_all

lemma run_scan_inv:
  assumes "scan_inv h p s"
  shows "scan_inv h p (scanner_of (run_scan w s))"
  unfolding run_scan_def
  apply (rule scan_inv_and_then [OF scan_signaling_server_inv [OF assms]])
  apply (rule scan_inv_and_then [OF scan_system_dependencies_inv], assumption)
  apply (rule scan_inv_and_then [OF scan_file_permissions_inv], assumption)
  apply (rule scan_inv_and_then [OF scan_network_security_inv], assumption)
  apply (rule scan_inv_and_then [OF scan_authentication_security_inv], assumption)
  apply simp
  done

lemma final_main: "final (main a w) = scanner_of (run_scan w (init (host a) (port a)))"
  by (simp add: main_def on_exception_def split: completion.splits option.splits)

subsection \<open>Reading back what was written\<close>







subsection \<open>Running the sample environments\<close>

lemmas scan_defs =
  run_scan_def scan_signaling_server_def Let_def is_Exception_def
  scan_system_dependencies_def dependencies_def check_dependency_def
  scan_file_permissions_def critical_files_def check_file_def
  scan_network_security_def scan_authentication_security_def generate_report_def
  append_vulnerability_def append_warning_def append_info_def append_passed_def init_def
  risk_score_def risk_tier_def

lemma run_scan_unreachable:
  "run_scan unreachable_env (init h p) =
     Returned \<lparr>score = 3, tier = MEDIUM_RISK\<rparr>
       \<lparr>target_host = h, target_port = p,
        results = \<lparr>vulnerabilities = [],
          warnings = [''Could not connect to signaling server: [Errno 111] Connection refused''],
          info = [''ffmpeg: Not available'', ''xdotool: Not available'',
                  ''ydotool: Not available'', ''wl-clipboard: Not available'',
                  ''xclip: Not available'', ''No HTTPS endpoint found'',
                  ''Authentication testing requires running instance''],
          passed = []\<rparr>\<rparr>"
  by (simp add: scan_defs unreachable_env_def)



lemma run_scan_denied:
  "run_scan denied_env (init h p) =
     Raised (Exn PermissionError ''[Errno 13] Permission denied'')
       \<lparr>target_host = h, target_port = p,
        results = \<lparr>vulnerabilities = [],
          warnings = [''Could not connect to signaling server: [Errno 111] Connection refused''],
          info = [''ffmpeg: Not available'', ''xdotool: Not available'',
                  ''ydotool: Not available'', ''wl-clipboard: Not available'',
                  ''xclip: Not available''],
          passed = []\<rparr>\<rparr>"
  by (simp add: scan_defs denied_env_def unreachable_env_def)


subsection \<open>What a loop has recorded when it is left\<close>













lemma mode_texts:
  "m mod 512 = 511 \<Longrightarrow> last_three (oct m) = ''777''"
  "m mod 512 = 510 \<Longrightarrow> last_three (oct m) = ''776''"
  "m mod 512 = 438 \<Longrightarrow> last_three (oct m) = ''666''"
  "m mod 512 = 493 \<Longrightarrow> last_three (oct m) = ''755''"
  "m mod 512 = 420 \<Longrightarrow> last_three (oct m) = ''644''"
  by (simp_all add: mode_simps)



section \<open>The claims\<close>

subsection \<open>Risk score and tier\<close>

text \<open>
  Claim C1. The risk score is ten times the number of vulnerabilities plus three times
  the number of warnings. The line printed after it is LOW RISK exactly when the score
  is 0, MEDIUM RISK exactly when it is strictly between 0 and 20, HIGH RISK exactly
  when it is at least 20; 19 is medium and 20 is high. The info and passed lists have no
  part in the score: replacing them, or appending to them, leaves it as it was.
\<close>

theorem risk_score_and_tier:
  "risk_score r = 10 * length (vulnerabilities r) + 3 * length (warnings r)
   \<and> score (generate_report s) = risk_score (results s)
   \<and> tier (generate_report s) = risk_tier (risk_score (results s))
   \<and> (risk_tier n = LOW_RISK) = (n = 0)
   \<and> (risk_tier n = MEDIUM_RISK) = (0 < n \<and> n < 20)
   \<and> (risk_tier n = HIGH_RISK) = (20 \<le> n)
   \<and> risk_tier 19 = MEDIUM_RISK \<and> risk_tier 20 = HIGH_RISK
   \<and> risk_score (r\<lparr>passed := ps\<rparr>) = risk_score r
   \<and> risk_score (r\<lparr>info := is\<rparr>) = risk_score r
   \<and> risk_score (results (append_passed x s)) = risk_score (results s)
   \<and> risk_score (results (append_info x s)) = risk_score (results s)"
  by (simp add: risk_score_def risk_tier_def generate_report_def Let_def)

subsection \<open>The payloads of the signaling probe\<close>




subsection \<open>The paths of the file permissions probe\<close>



subsection \<open>A failure inside the file permissions probe\<close>

text \<open>
  Claim C4 says that a failure inside a probe, permission denied on a path among them,
  becomes an Info or Warning finding inside that probe and never stops the probes after
  it. The file permissions probe has no handler. Where examining the user data directory
  raises a \<^verbatim>\<open>PermissionError\<close>, the exception leaves the probe and \<open>run_scan\<close>: the
  network and authentication probes do not run, no report is produced, and \<open>main\<close>
  prints \<^verbatim>\<open>Scan failed\<close> and exits with status 1.
\<close>

theorem file_probe_failure_aborts_scan:
  "scan_file_permissions denied_env (init ''localhost'' 3000) =
     Raised (Exn PermissionError ''[Errno 13] Permission denied'') (init ''localhost'' 3000)
   \<and> main \<lparr>host = ''localhost'', port = 3000, output_path = None\<rparr> denied_env =
     \<lparr>exit_status = 1,
      messages = [''\<newline>Scan failed: [Errno 13] Permission denied''],
      artifact = None,
      final = \<lparr>target_host = ''localhost'', target_port = 3000,
        results = \<lparr>vulnerabilities = [],
          warnings = [''Could not connect to signaling server: [Errno 111] Connection refused''],
          info = [''ffmpeg: Not available'', ''xdotool: Not available'',
                  ''ydotool: Not available'', ''wl-clipboard: Not available'',
                  ''xclip: Not available''],
          passed = []\<rparr>\<rparr>,
      reported = None\<rparr>"
  by (simp add: main_def on_exception_def run_scan_denied)
     (simp add: scan_file_permissions_def critical_files_def check_file_def
        denied_env_def unreachable_env_def)

subsection \<open>The document written by the command\<close>




subsection \<open>A port outside the range\<close>

text \<open>
  Claim C6 as stated fails: with port 70000, outside 1 to 65535, the command does not
  stop at startup. Against the unreachable host all five probes run, the report is
  produced and the exit status is 0.
\<close>

theorem out_of_range_port_scans:
  "\<not> ((1 :: int) \<le> 70000 \<and> (70000 :: int) \<le> 65535)
   \<and> main \<lparr>host = ''localhost'', port = 70000, output_path = None\<rparr> unreachable_env =
     \<lparr>exit_status = 0, messages = [], artifact = None,
      final = \<lparr>target_host = ''localhost'', target_port = 70000,
        results = \<lparr>vulnerabilities = [],
          warnings = [''Could not connect to signaling server: [Errno 111] Connection refused''],
          info = [''ffmpeg: Not available'', ''xdotool: Not available'',
                  ''ydotool: Not available'', ''wl-clipboard: Not available'',
                  ''xclip: Not available'', ''No HTTPS endpoint found'',
                  ''Authentication testing requires running instance''],
          passed = []\<rparr>\<rparr>,
      reported = Some \<lparr>score = 3, tier = MEDIUM_RISK\<rparr>\<rparr>"
  by (simp add: main_def run_scan_unreachable)

text \<open>
  Claim C6, amended. The command checks no range. For every integer port, inside or
  outside 1 to 65535, \<open>main\<close> builds the scanner with that port and runs the scan on it:
  the scanner at the end is the one the scan leaves, its port is the port given, and the
  report is the one of the scan when the scan returns.
\<close>

theorem main_runs_scan_for_any_port:
  "final (main a w) = scanner_of (run_scan w (init (host a) (port a)))
   \<and> target_host (final (main a w)) = host a
   \<and> target_port (final (main a w)) = port a
   \<and> reported (main a w) =
       (case run_scan w (init (host a) (port a)) of
          Returned rep s \<Rightarrow> Some rep
        | Raised e s \<Rightarrow> None)"
proof -
  have "scan_inv (host a) (port a) (scanner_of (run_scan w (init (host a) (port a))))"
    using scan_inv_init by (rule run_scan_inv)
  then have "target_host (final (main a w)) = host a \<and> target_port (final (main a w)) = port a"
    by (simp add: final_main scan_inv_def)
  moreover have "reported (main a w) =
       (case run_scan w (init (host a) (port a)) of
          Returned rep s \<Rightarrow> Some rep
        | Raised e s \<Rightarrow> None)"
    by (simp add: main_def on_exception_def split: completion.splits option.splits)
  ultimately show ?thesis
    by (simp only: final_main simp_thms)
qed

subsection \<open>A connection lost after it was established\<close>

text \<open>
  Claim C7 says that an established connection always yields one Passed finding, whatever
  happens to the payloads. The entry is appended after the loop. Where the server
  answers the first payload and then closes the connection, the exception of the second
  exchange leaves the loop: no Passed entry is recorded, and the warning says that the
  scanner could not connect, beside the vulnerability found over that connection.
\<close>

theorem signaling_probe_connection_lost:
  \<open>ws_connect dropping_env ''ws://localhost:3000'' = None
   \<and> ws_recv dropping_env 0 = Inr (Text ''welcome'')
   \<and> ws_recv dropping_env 1 = Inl (Exn ConnectionClosed ''no close frame received or sent'')
   \<and> scan_signaling_server dropping_env (init ''localhost'' 3000) =
     Returned ()
       \<lparr>target_host = ''localhost'', target_port = 3000,
        results = \<lparr>vulnerabilities =
            [[(''type'', ''Input Validation''),
              (''payload'', ''{"type": "create-room", "roomId": "../../../etc/passwd"}''),
              (''description'', ''Server accepts malicious input without proper validation'')]],
          warnings = [''Could not connect to signaling server: no close frame received or sent''],
          info = [],
          passed = []\<rparr>\<rparr>\<close>
  by (simp add: scan_signaling_server_def dropping_env_def unreachable_env_def
        malicious_payloads_def send_payload_def lower_samples py_in_sublist sublist_samples
        is_Exception_def append_vulnerability_def append_warning_def init_def)

subsection \<open>The exit status\<close>




subsection \<open>The network security probe\<close>

text \<open>
  Claim C9. The block that inspects the negotiated TLS version always raises the
  \<^verbatim>\<open>NameError\<close> of the unbound name \<^verbatim>\<open>socket\<close>, so neither of its two branches is
  reached. In every environment and for every target, the probe leaves the
  vulnerabilities and the passed list as they were. When it returns it has appended
  exactly one info entry, \<^verbatim>\<open>No HTTPS endpoint found\<close> or \<^verbatim>\<open>TLS scan failed: ...\<close>, and
  at most one warning. It raises only an exception of the HTTPS request that is not an
  \<^verbatim>\<open>Exception\<close> (a keyboard interrupt), and then it has appended nothing.
\<close>

theorem network_probe_findings:
  "tls_block w s = Raised (Exn NameError (''name 'socket' is not defined'')) s
   \<and> (case scan_network_security w s of
         Returned u s' \<Rightarrow>
           vulnerabilities (results s') = vulnerabilities (results s)
           \<and> passed (results s') = passed (results s)
           \<and> (info (results s') = info (results s) @ [''No HTTPS endpoint found'']
              \<or> info (results s') =
                  info (results s) @ [''TLS scan failed: name 'socket' is not defined'']
              \<or> (\<exists>e. requests_get w
                        (''https://'' @ target_host s @ '':'' @ str_int (target_port s)) = Inl e
                     \<and> info (results s') = info (results s) @ [''TLS scan failed: '' @ str_exn e]))
           \<and> length (info (results s')) = length (info (results s)) + 1
           \<and> (warnings (results s') = warnings (results s)
              \<or> warnings (results s') =
                  warnings (results s) @ [''HTTPS endpoint responds but certificate not verified''])
       | Raised e s' \<Rightarrow>
           s' = s \<and> exn_class_of e = KeyboardInterrupt
           \<and> requests_get w (''https://'' @ target_host s @ '':'' @ str_int (target_port s)) = Inl e)"
  by (auto simp: scan_network_security_def tls_block_raises is_Exception_def Let_def
           split: sum.splits)

subsection \<open>The authentication probe\<close>

text \<open>
  Claim C10. The authentication probe consults nothing outside the scanner: in every
  environment and for every target it returns after appending the one entry
  \<^verbatim>\<open>Authentication testing requires running instance\<close> to the info list, and the
  three other lists and the target are as before. The list of weak passwords occurs in
  no equation of the probe.
\<close>

theorem authentication_probe_fixed:
  "scan_authentication_security w s =
     Returned () (append_info ''Authentication testing requires running instance'' s)
   \<and> scan_authentication_security w s = scan_authentication_security w' s
   \<and> info (results (append_info ''Authentication testing requires running instance'' s)) =
       info (results s) @ [''Authentication testing requires running instance'']
   \<and> vulnerabilities (results (append_info ''Authentication testing requires running instance'' s)) =
       vulnerabilities (results s)
   \<and> warnings (results (append_info ''Authentication testing requires running instance'' s)) =
       warnings (results s)
   \<and> passed (results (append_info ''Authentication testing requires running instance'' s)) =
       passed (results s)"
  by (simp add: scan_authentication_security_def)

end
